theory Spec2Isabelle
  imports Complex_Main "HOL-Library.Word" "HOL-Library.Monad_Syntax"
begin

unbundle bit_operations_syntax

section \<open>Data model of am2321.c\<close>

text \<open>
  The sensor reply lives in \<^verbatim>\<open>struct am2321 { char register_data[8]; }\<close>.
  Plain \<^verbatim>\<open>char\<close> is an 8-bit machine integer whose signedness the C implementation
  chooses, and the source says nothing about it. The model therefore takes it as a
  parameter \<open>abi\<close> of every function that computes with a \<^verbatim>\<open>char\<close>. A
  \<^verbatim>\<open>char\<close> used in an arithmetic expression is promoted to the 32-bit \<^verbatim>\<open>int\<close>:
  \<open>promote\<close> zero-extends an unsigned \<^verbatim>\<open>char\<close> and sign-extends a signed one.
  \<open>to_ushort\<close> is the cast \<^verbatim>\<open>(unsigned short)\<close> of a \<^verbatim>\<open>char\<close>, which reduces
  its value modulo \<open>2 ^ 16\<close>: a signed byte 0x80 or above becomes 0xFF80 or above. A
  \<^verbatim>\<open>double\<close> is modelled by the real number it approximates.
\<close>

type_synonym c_char = "8 word"
type_synonym c_int = "32 word"

datatype char_abi = Char_unsigned | Char_signed

definition promote :: "char_abi \<Rightarrow> c_char \<Rightarrow> c_int" where
  "promote abi c = (case abi of Char_unsigned \<Rightarrow> ucast c | Char_signed \<Rightarrow> scast c)"

definition to_ushort :: "char_abi \<Rightarrow> c_char \<Rightarrow> 16 word" where
  "to_ushort abi c = (case abi of Char_unsigned \<Rightarrow> ucast c | Char_signed \<Rightarrow> scast c)"

record am2321 =
  register_data :: "c_char list"

text \<open>
  \<^verbatim>\<open>register_data[i]\<close>: an index outside the array is undefined behaviour in C and
  \<open>None\<close> here.
\<close>

definition reg :: "am2321 \<Rightarrow> nat \<Rightarrow> c_char option" where
  "reg d i = (if i < length (register_data d) then Some (register_data d ! i) else None)"

text \<open>
  Everything the program does besides computing values is recorded as an event: the calls
  into the I2C library (\<^verbatim>\<open>lib/i2c-ctl.h\<close>), the sleeps, the diagnostics written with
  \<^verbatim>\<open>printk\<close> (format string and integer arguments) and the output written with
  \<^verbatim>\<open>printf\<close> (format string and floating-point arguments).
\<close>

datatype event =
    Gen_i2c_slave string string int int int
  | Init_i2c_slave
  | Write_i2c_slave "c_char list"
  | Read_i2c_slave nat
  | Term_i2c_slave
  | Destroy_i2c_slave
  | Usleep nat
  | Printk string "c_int list"
  | Printf string "real list"

record world =
  am2321_data :: am2321
  trace :: "event list"

definition emit :: "event \<Rightarrow> world \<Rightarrow> world" where
  "emit e w = w\<lparr>trace := trace w @ [e]\<rparr>"

definition printk :: "string \<Rightarrow> c_int list \<Rightarrow> world \<Rightarrow> world" where
  "printk fmt args w = emit (Printk fmt args) w"

definition printf :: "string \<Rightarrow> real list \<Rightarrow> world \<Rightarrow> world" where
  "printf fmt args w = emit (Printf fmt args) w"

definition usleep :: "nat \<Rightarrow> world \<Rightarrow> world" where
  "usleep n w = emit (Usleep n) w"

definition I2C_SLAVE_MAX_RETRY :: int where "I2C_SLAVE_MAX_RETRY = 5"
definition AM2321_ID :: int where "AM2321_ID = 0x5c"
definition AM2321_DEV_NAME :: string where "AM2321_DEV_NAME = ''am2321''"
definition AM2321_WAIT_WAKEUP :: nat where "AM2321_WAIT_WAKEUP = 800"
definition AM2321_WAIT_WRITEMODE :: nat where "AM2321_WAIT_WRITEMODE = 1500"
definition AM2321_WAIT_READMODE :: nat where "AM2321_WAIT_READMODE = 30"
definition AM2321_WAIT_REFRESH :: nat where "AM2321_WAIT_REFRESH = 2000000"

section \<open>Decoding\<close>

text \<open>
  \<^verbatim>\<open>return ((high << 8) + low) / 10.0;\<close> with both operands promoted to \<^verbatim>\<open>int\<close>.
  ISO C leaves the left shift of a negative \<^verbatim>\<open>int\<close> undefined; GCC and Clang shift the
  two's complement representation, and so does \<open>push_bit\<close> here.
\<close>

definition calc_data :: "char_abi \<Rightarrow> c_char \<Rightarrow> c_char \<Rightarrow> real" where
  "calc_data abi high low =
     real_of_int (sint (push_bit 8 (promote abi high) + promote abi low)) / 10"

definition calc_hum :: "char_abi \<Rightarrow> world \<Rightarrow> (real \<times> world) option" where
  "calc_hum abi w = do {
     high \<leftarrow> reg (am2321_data w) 2;
     low \<leftarrow> reg (am2321_data w) 3;
     Some (calc_data abi high low, w)
   }"

definition calc_temp :: "char_abi \<Rightarrow> world \<Rightarrow> (real \<times> world) option" where
  "calc_temp abi w = do {
     high \<leftarrow> reg (am2321_data w) 4;
     low \<leftarrow> reg (am2321_data w) 5;
     Some (calc_data abi high low, w)
   }"

definition calc_discomfort :: "char_abi \<Rightarrow> world \<Rightarrow> (real \<times> world) option" where
  "calc_discomfort abi w = do {
     (hum, w1) \<leftarrow> calc_hum abi w;
     (temp, w2) \<leftarrow> calc_temp abi w1;
     Some (0.81 * temp + 0.01 * hum * (0.99 * temp - 14.3) + 46.3, w2)
   }"

section \<open>Validation\<close>

definition check_err :: "char_abi \<Rightarrow> world \<Rightarrow> (int \<times> world) option" where
  "check_err abi w = do {
     c \<leftarrow> reg (am2321_data w) 2;
     if 0x80 \<le> sint (promote abi c)
     then do {
       c' \<leftarrow> reg (am2321_data w) 2;
       Some (- 1, printk ''am2321 : Received error code : 0x%0x\<newline>'' [promote abi c'] w)
     }
     else Some (0, w)
   }"

text \<open>
  The body of the inner loop of \<^verbatim>\<open>check_crc\<close>. \<^verbatim>\<open>clc_crcsum\<close> is a signed
  \<^verbatim>\<open>int\<close>, so \<^verbatim>\<open>>>\<close> is the arithmetic shift.
\<close>

definition crc_shift :: "c_int \<Rightarrow> c_int" where
  "crc_shift clc_crcsum =
     (if clc_crcsum AND 1 \<noteq> 0
      then signed_drop_bit 1 clc_crcsum XOR 0xa001
      else signed_drop_bit 1 clc_crcsum)"

text \<open>\<^verbatim>\<open>for (j = 0; j < 8; j++)\<close>\<close>

function crc_loop_j :: "nat \<Rightarrow> c_int \<Rightarrow> c_int" where
  "crc_loop_j j clc_crcsum =
     (if j < 8 then crc_loop_j (j + 1) (crc_shift clc_crcsum) else clc_crcsum)"
  by pat_completeness auto
termination
  by (relation "measure (\<lambda>(j, clc_crcsum). 8 - j)") auto

text \<open>
  \<^verbatim>\<open>for (i = 0; i < 6; i++)\<close>; the byte is cast with \<^verbatim>\<open>(unsigned short)\<close>, and
  the \<^verbatim>\<open>^=\<close> promotes that 16-bit value to \<^verbatim>\<open>int\<close> by zero extension.
\<close>

function crc_loop_i :: "char_abi \<Rightarrow> am2321 \<Rightarrow> nat \<Rightarrow> c_int \<Rightarrow> c_int option" where
  "crc_loop_i abi d i clc_crcsum =
     (if i < 6
      then do {
        c \<leftarrow> reg d i;
        crc_loop_i abi d (i + 1) (crc_loop_j 0 (clc_crcsum XOR ucast (to_ushort abi c)))
      }
      else Some clc_crcsum)"
  by pat_completeness auto
termination
  by (relation "measure (\<lambda>(abi, d, i, clc_crcsum). 6 - i)") auto

definition check_crc :: "char_abi \<Rightarrow> world \<Rightarrow> (int \<times> world) option" where
  "check_crc abi w = do {
     hi \<leftarrow> reg (am2321_data w) 7;
     lo \<leftarrow> reg (am2321_data w) 6;
     let rcv_crcsum = push_bit 8 (promote abi hi) + promote abi lo;
     clc_crcsum \<leftarrow> crc_loop_i abi (am2321_data w) 0 0xffff;
     if rcv_crcsum = clc_crcsum
     then Some (0, w)
     else Some (- 1, printk
       ''am2321 : Failed CRC check sum. Receive CRC : 0x%0x, Calc CRC : 0x%0x\<newline>''
       [rcv_crcsum, clc_crcsum] w)
   }"

section \<open>The I2C library\<close>

text \<open>
  Modelled from the spec: the bus transport of \<^verbatim>\<open>lib/i2c-ctl.h\<close>
  (\<^verbatim>\<open>gen_i2c_slave\<close>, \<^verbatim>\<open>init_i2c_slave\<close>, \<^verbatim>\<open>write_i2c_slave\<close>,
  \<^verbatim>\<open>read_i2c_slave\<close>, \<^verbatim>\<open>term_i2c_slave\<close>, \<^verbatim>\<open>destroy_i2c_slave\<close>), which
  \<^verbatim>\<open>am2321.c\<close> only calls. The spec leaves the transport unspecified, so it is a
  parameter: \<open>i2c_return\<close> gives the return value of the library call that is the last
  event of the history so far, and \<open>i2c_received\<close> the bytes a read delivers. Both may
  depend on everything that happened before, sleeps included. A read of \<open>n\<close> bytes stores
  at most \<open>n\<close> bytes at the start of the buffer and leaves the rest of it as it was.
\<close>

record i2c_ctl =
  i2c_return :: "event list \<Rightarrow> int"
  i2c_received :: "event list \<Rightarrow> c_char list"

definition i2c_call :: "i2c_ctl \<Rightarrow> event \<Rightarrow> world \<Rightarrow> int \<times> world" where
  "i2c_call lib e w = (let w' = emit e w in (i2c_return lib (trace w'), w'))"

definition read_i2c_slave :: "i2c_ctl \<Rightarrow> nat \<Rightarrow> world \<Rightarrow> int \<times> world" where
  "read_i2c_slave lib n w =
     (let w' = emit (Read_i2c_slave n) w;
          rcv = take n (i2c_received lib (trace w'));
          buf = register_data (am2321_data w)
      in (i2c_return lib (trace w'),
          w'\<lparr>am2321_data := \<lparr>register_data = rcv @ drop (length rcv) buf\<rparr>\<rparr>))"

section \<open>One session\<close>

definition write_mode_am2321 :: "i2c_ctl \<Rightarrow> world \<Rightarrow> int \<times> world" where
  "write_mode_am2321 lib w =
     (let (r, w1) = i2c_call lib (Write_i2c_slave []) w in
      if r = - 1
      then (- 1, printk ''am2321 : Failed set to write mode for am2321.\<newline>'' [] w1)
      else (0, w1))"

definition wakeup_am2321 :: "i2c_ctl \<Rightarrow> world \<Rightarrow> int \<times> world" where
  "wakeup_am2321 lib w =
     (let (r, w1) = write_mode_am2321 lib w in
      if r = - 1
      then (- 1, printk ''am2321 : Failed wakeup am2321.\<newline>'' [] w1)
      else (0, usleep AM2321_WAIT_WAKEUP w1))"

text \<open>
  \<^verbatim>\<open>measure\<close> (named \<open>measure_am2321\<close> here, as \<open>measure\<close> is taken in HOL):
  every \<^verbatim>\<open>return -1\<close> of the source is a branch that ends the
  function at once. \<^verbatim>\<open>sprintf(i2c_dev_name, "/dev/i2c-%d", 1)\<close> yields the device
  name \<^verbatim>\<open>/dev/i2c-1\<close>.
\<close>

definition measure_am2321 :: "char_abi \<Rightarrow> i2c_ctl \<Rightarrow> world \<Rightarrow> (int \<times> world) option" where
  "measure_am2321 abi lib w =
     (let w1 = emit (Gen_i2c_slave ''/dev/i2c-1'' AM2321_DEV_NAME AM2321_ID 1 3000) w;
          (r2, w2) = i2c_call lib Init_i2c_slave w1 in
      if r2 = - 1 then Some (- 1, w2) else
      let (r3, w3) = wakeup_am2321 lib w2 in
      if r3 = - 1 then Some (- 1, w3) else
      let (r4, w4) = write_mode_am2321 lib w3 in
      if r4 = - 1 then Some (- 1, w4) else
      let (r5, w5) = i2c_call lib (Write_i2c_slave [0x03, 0x00, 0x04])
                       (usleep AM2321_WAIT_WRITEMODE w4) in
      if r5 = - 1 then Some (- 1, w5) else
      let (r6, w6) = read_i2c_slave lib 8 (usleep AM2321_WAIT_READMODE w5) in
      if r6 = - 1 then Some (- 1, w6) else
      let (r7, w7) = i2c_call lib Term_i2c_slave w6 in
      if r7 = - 1 then Some (- 1, w7) else
      let (r8, w8) = i2c_call lib Destroy_i2c_slave w7 in
      if r8 = - 1 then Some (- 1, w8) else
      do {
        (r9, w9) \<leftarrow> check_err abi w8;
        if r9 = - 1 then Some (- 1, w9) else
        do {
          (r10, w10) \<leftarrow> check_crc abi w9;
          if r10 = - 1 then Some (- 1, w10) else Some (0, w10)
        }
      })"

section \<open>Retry controller\<close>

text \<open>
  \<^verbatim>\<open>while (measure(am2321_data) == -1) { if (I2C_SLAVE_MAX_RETRY < ++count) ... }\<close>.
  \<^verbatim>\<open>count\<close> starts at 0 and never exceeds 6, so the C \<^verbatim>\<open>int\<close> cannot overflow.
\<close>

function measure_retry_loop ::
  "char_abi \<Rightarrow> i2c_ctl \<Rightarrow> int \<Rightarrow> world \<Rightarrow> (int \<times> world) option" where
  "measure_retry_loop abi lib count w =
     (case measure_am2321 abi lib w of
        None \<Rightarrow> None
      | Some (r, w1) \<Rightarrow>
          if r = - 1
          then if I2C_SLAVE_MAX_RETRY < count + 1
               then Some (- 1, printk ''am2321 : Failed measure from am2321.\<newline>'' [] w1)
               else measure_retry_loop abi lib (count + 1)
                      (usleep 300000
                        (printk ''am2321 : Failed measure from am2321. retry %d of %d\<newline>''
                          [word_of_int (count + 1), word_of_int I2C_SLAVE_MAX_RETRY] w1))
          else Some (0, w1))"
  by pat_completeness auto
termination
  by (relation "measure (\<lambda>(abi, lib, count, w). nat (I2C_SLAVE_MAX_RETRY + 1 - count))") auto

declare measure_retry_loop.simps [simp del]

definition measure_retry :: "char_abi \<Rightarrow> i2c_ctl \<Rightarrow> world \<Rightarrow> (int \<times> world) option" where
  "measure_retry abi lib w = measure_retry_loop abi lib 0 w"

section \<open>Command line\<close>

definition print_help :: "world \<Rightarrow> world" where
  "print_help w =
     printf ''Report bugs to mrkoh_t.bug-report@mem-notfound.net\<newline>'' []
    (printf (''  -h'' @ CHR 0x09 # ''Show this message.\<newline>\<newline>'') []
    (printf (''  -r'' @ CHR 0x09 # ''Print the value in human readable format.\<newline>'') []
    (printf (''  -j'' @ CHR 0x09 # ''Print the value in JSON format.\<newline>'') []
    (printf (''  -c'' @ CHR 0x09 # ''Print the value in CSV format.\<newline>'') []
    (printf ''Receive the data from AM2321 which is I2C Slave device and print the value of temperature, humidity, discomfort index.\<newline>\<newline>'' []
    (printf ''Usage: am2321 [OPTION]\<newline>'' [] w))))))"

text \<open>
  \<^verbatim>\<open>while ((arg = getopt(argc, argv, "cjrh")) != -1) format = arg;\<close> over the values
  that successive calls of \<^verbatim>\<open>getopt\<close> return; after the last element \<^verbatim>\<open>getopt\<close>
  returns -1.
\<close>

fun getopt_loop :: "int list \<Rightarrow> int \<Rightarrow> int" where
  "getopt_loop [] format = format"
| "getopt_loop (arg # rest) format = (if arg \<noteq> - 1 then getopt_loop rest arg else format)"

text \<open>
  \<^verbatim>\<open>main\<close>. The local \<^verbatim>\<open>format\<close> is not initialised: \<open>format0\<close> is the value it
  happens to hold. The same goes for \<^verbatim>\<open>am2321_data\<close>, whose eight bytes are those of
  the starting world. The result is the exit status.
\<close>

definition main ::
  "char_abi \<Rightarrow> i2c_ctl \<Rightarrow> int list \<Rightarrow> int \<Rightarrow> world \<Rightarrow> (int \<times> world) option" where
  \<open>main abi lib opts format0 w =
     (let format = getopt_loop opts format0 in
      if format = of_char CHR ''h'' then Some (1, print_help w)
      else do {
        (r1, w1) \<leftarrow> measure_retry abi lib w;
        (r2, w2) \<leftarrow> measure_retry abi lib (usleep AM2321_WAIT_REFRESH w1);
        if r2 = - 1
        then Some (0, printf ''Failed measure data from AM2321.\<newline>'' [] w2)
        else do {
          (temp, w3) \<leftarrow> calc_temp abi w2;
          (hum, w4) \<leftarrow> calc_hum abi w3;
          (discomfort, w5) \<leftarrow> calc_discomfort abi w4;
          Some (0,
            if format = of_char CHR ''c''
            then printf ''%.1f,%.1f,%.1f\<newline>'' [temp, hum, discomfort] w5
            else if format = of_char CHR ''j''
            then printf ''{"Templature":%.1f,"Humidity":%.1f,"Discomfort":%.1f}\<newline>''
                   [temp, hum, discomfort] w5
            else printf ''Templature : %.1f\<newline>Humidity   : %.1f\<newline>Discomfort : %.1f\<newline>''
                   [temp, hum, discomfort] w5)
        }
      })\<close>

section \<open>The specification's checksum\<close>

text \<open>
  The CRC16 of the specification, written from its words on a 16-bit accumulator: one
  iteration shifts right by one and XORs with 0xA001 when the low bit was set; a byte is
  XORed into the low 8 bits of the accumulator (the high 8 bits stay), followed by 8
  iterations; the accumulator starts at 0xFFFF and the first 6 bytes of the frame are
  processed in order.
\<close>

definition spec_crc_bit :: "16 word \<Rightarrow> 16 word" where
  "spec_crc_bit acc = (if bit acc 0 then drop_bit 1 acc XOR 0xA001 else drop_bit 1 acc)"

definition spec_xor_low :: "16 word \<Rightarrow> 8 word \<Rightarrow> 16 word" where
  "spec_xor_low acc b = word_cat (ucast (drop_bit 8 acc) :: 8 word) ((ucast acc :: 8 word) XOR b)"

definition spec_crc_byte :: "16 word \<Rightarrow> 8 word \<Rightarrow> 16 word" where
  "spec_crc_byte acc b = (spec_crc_bit ^^ 8) (spec_xor_low acc b)"

definition computeCrc16 :: "8 word list \<Rightarrow> 16 word" where
  "computeCrc16 bytes = foldl spec_crc_byte 0xFFFF (take 6 bytes)"

text \<open>
  \<open>validateCrc\<close> compares with the 16-bit value formed from byte 6 (low) and byte 7
  (high); \<open>store_crc\<close> appends the checksum of a register prefix in that order.
\<close>

definition validateCrc :: "8 word list \<Rightarrow> bool" where
  "validateCrc frame = (computeCrc16 frame = word_cat (frame ! 7) (frame ! 6))"

definition store_crc :: "c_char list \<Rightarrow> c_char list" where
  "store_crc prefix = prefix @ [ucast (computeCrc16 prefix), ucast (drop_bit 8 (computeCrc16 prefix))]"

text \<open>\<open>checkStatus\<close> fails when byte 2 of the frame has its high bit set.\<close>

definition checkStatus :: "c_char list \<Rightarrow> bool" where
  "checkStatus frame = (\<not> bit (frame ! 2) 7)"

section \<open>The session protocol of the specification\<close>

text \<open>
  The events of one complete session in the order of the state machine: open and
  initialise, wake write and 800 microseconds, write-mode write and 1500 microseconds,
  the command 03 00 04, 30 microseconds, the read of 8 bytes, terminate, release.
\<close>

definition session_start :: event where
  "session_start = Gen_i2c_slave ''/dev/i2c-1'' ''am2321'' 0x5c 1 3000"

definition session :: "event list" where
  "session =
     [session_start, Init_i2c_slave,
      Write_i2c_slave [], Usleep 800,
      Write_i2c_slave [], Usleep 1500,
      Write_i2c_slave [0x03, 0x00, 0x04], Usleep 30,
      Read_i2c_slave 8, Term_i2c_slave, Destroy_i2c_slave]"

text \<open>
  \<open>step_ok lib t n\<close>: in a session that starts after the history \<open>t\<close>, the library call
  that is the \<open>n\<close>-th event of the session does not return -1. The transport steps are the
  events 2 (initialise), 3 (wake), 5 (write mode), 7 (command), 9 (read), 10 (terminate)
  and 11 (release). \<open>received_frame\<close> is the buffer after the read.
\<close>

definition step_ok :: "i2c_ctl \<Rightarrow> event list \<Rightarrow> nat \<Rightarrow> bool" where
  "step_ok lib t n = (i2c_return lib (t @ take n session) \<noteq> - 1)"


definition received_frame :: "i2c_ctl \<Rightarrow> event list \<Rightarrow> c_char list \<Rightarrow> c_char list" where
  "received_frame lib t buf =
     (let rcv = take 8 (i2c_received lib (t @ take 9 session)) in rcv @ drop (length rcv) buf)"

definition session_world :: "event list \<Rightarrow> c_char list \<Rightarrow> world" where
  "session_world t frame = \<lparr>am2321_data = \<lparr>register_data = frame\<rparr>, trace = t\<rparr>"

section \<open>The retry policy of the specification\<close>

text \<open>
  The attempts of one measurement request. \<open>retry_start abi lib w k\<close> is the world in which
  attempt number \<open>k + 1\<close> begins when the attempts before it have failed: after each
  failed attempt a notice with the current and the maximum retry count is logged and
  300 milliseconds are slept. \<open>attempt abi lib w k\<close> is the outcome of attempt number
  \<open>k + 1\<close>.
\<close>

fun retry_start :: "char_abi \<Rightarrow> i2c_ctl \<Rightarrow> world \<Rightarrow> nat \<Rightarrow> world option" where
  "retry_start abi lib w 0 = Some w"
| "retry_start abi lib w (Suc k) = do {
     w0 \<leftarrow> retry_start abi lib w k;
     (r, w') \<leftarrow> measure_am2321 abi lib w0;
     Some (usleep 300000
       (printk ''am2321 : Failed measure from am2321. retry %d of %d\<newline>''
          [of_nat (Suc k), 5] w'))
   }"

definition attempt :: "char_abi \<Rightarrow> i2c_ctl \<Rightarrow> world \<Rightarrow> nat \<Rightarrow> (int \<times> world) option" where
  "attempt abi lib w k = do { w0 \<leftarrow> retry_start abi lib w k; measure_am2321 abi lib w0 }"

definition attempt_fails :: "char_abi \<Rightarrow> i2c_ctl \<Rightarrow> world \<Rightarrow> nat \<Rightarrow> bool" where
  "attempt_fails abi lib w k = (map_option fst (attempt abi lib w k) = Some (- 1))"

text \<open>
  The events of a trace that mark the start of a session or a sleep of 300 milliseconds.
\<close>

definition attempt_marks :: "event list \<Rightarrow> event list" where
  "attempt_marks t = filter (\<lambda>e. e = session_start \<or> e = Usleep 300000) t"

section \<open>Test transports\<close>

text \<open>
  \<open>good_frame\<close> is the reply 03 04 02 0A 01 00 with its checksum D1 C2. \<open>lib_ok\<close> is a
  transport on which every call succeeds and every read delivers \<open>good_frame\<close>;
  on \<open>lib_wake_fails\<close> exactly the zero-length writes fail; on \<open>lib_fifth\<close> every
  call fails until \<^verbatim>\<open>init_i2c_slave\<close> has been called five times, so the first four
  sessions fail at initialisation and the fifth succeeds; on \<open>lib_down\<close> every call fails.
\<close>

definition good_frame :: "c_char list" where
  "good_frame = [0x03, 0x04, 0x02, 0x0A, 0x01, 0x00, 0xD1, 0xC2]"

definition lib_ok :: i2c_ctl where
  "lib_ok = \<lparr>i2c_return = (\<lambda>h. 0), i2c_received = (\<lambda>h. good_frame)\<rparr>"

definition lib_wake_fails :: i2c_ctl where
  "lib_wake_fails =
     \<lparr>i2c_return = (\<lambda>h. if h \<noteq> [] \<and> last h = Write_i2c_slave [] then - 1 else 0),
      i2c_received = (\<lambda>h. good_frame)\<rparr>"

definition lib_fifth :: i2c_ctl where
  "lib_fifth =
     \<lparr>i2c_return = (\<lambda>h. if length (filter (\<lambda>e. e = Init_i2c_slave) h) < 5 then - 1 else 0),
      i2c_received = (\<lambda>h. good_frame)\<rparr>"

definition lib_down :: i2c_ctl where
  "lib_down = \<lparr>i2c_return = (\<lambda>h. - 1), i2c_received = (\<lambda>h. [])\<rparr>"

section \<open>Auxiliary facts\<close>

subsection \<open>Promotion of bytes to int\<close>

lemma uint_char_bound: "uint (c :: c_char) < 256"
  using uint_lt2p [of c] by simp

lemma uint_promote: "uint (promote Char_unsigned c) = uint c"
proof -
  have "uint c < 2 ^ 32" using uint_char_bound [of c] by simp
  then show ?thesis
    unfolding promote_def by (simp add: unsigned_ucast_eq take_bit_int_eq_self)
qed

lemma sint_eq_uint_small:
  fixes x :: c_int
  assumes "uint x < 2 ^ 31"
  shows "sint x = uint x"
proof -
  have "signed_take_bit 31 (uint x) = uint x"
  proof (rule signed_take_bit_int_eq_self)
    have "- (2 ^ 31) \<le> (0 :: int)" by simp
    also have "0 \<le> uint x" by simp
    finally show "- (2 ^ 31) \<le> uint x" .
    show "uint x < 2 ^ 31" by (rule assms)
  qed
  then show ?thesis by (simp add: sint_uint)
qed

lemma sint_promote: "sint (promote Char_unsigned c) = uint c"
  using uint_char_bound [of c] by (simp add: sint_eq_uint_small uint_promote)

lemma uint_field: "uint (push_bit 8 (promote Char_unsigned h) + promote Char_unsigned l) = uint h * 256 + uint l"
proof -
  have h: "uint h < 256" "0 \<le> uint h" and l: "uint l < 256" "0 \<le> uint l"
    using uint_char_bound by simp_all
  have "uint (push_bit 8 (promote Char_unsigned h)) = take_bit LENGTH(32) (push_bit 8 (uint h))"
    by (simp only: unsigned_push_bit_eq uint_promote)
  also have "LENGTH(32) = 32" by simp
  also have "push_bit 8 (uint h) = uint h * 256"
    by (simp add: push_bit_eq_mult)
  also have "take_bit 32 (uint h * 256) = uint h * 256"
    by (rule take_bit_int_eq_self) (use h in simp_all)
  finally have p: "uint (push_bit 8 (promote Char_unsigned h)) = uint h * 256" .
  show ?thesis
    using h l by (simp add: uint_word_ariths p uint_promote)
qed

lemma sint_field: "sint (push_bit 8 (promote Char_unsigned h) + promote Char_unsigned l) = uint h * 256 + uint l"
proof -
  have "uint h < 256" "uint l < 256" using uint_char_bound by simp_all
  then have "uint (push_bit 8 (promote Char_unsigned h) + promote Char_unsigned l) < 2 ^ 31"
    by (simp add: uint_field)
  then show ?thesis by (simp add: sint_eq_uint_small uint_field)
qed

subsection \<open>The checksum loops stay within 16 bits\<close>

lemma sdrop_ucast: "signed_drop_bit 1 (ucast (a :: 16 word) :: 32 word) = ucast (drop_bit 1 a)"
  by (rule bit_word_eqI) (auto simp: bit_simps dest: bit_imp_le_length)

lemma and1_ucast: "(ucast (a :: 16 word) :: 32 word) AND 1 \<noteq> 0 \<longleftrightarrow> bit a 0"
proof -
  have "(ucast a :: 32 word) AND 1 = of_bool (bit (ucast a :: 32 word) 0)"
    by (simp add: and_one_eq bit_0 mod_2_eq_odd)
  also have "bit (ucast a :: 32 word) 0 = bit a 0"
    by (simp add: bit_ucast_iff)
  finally show ?thesis by simp
qed

lemma crc_shift_ucast: "crc_shift (ucast (a :: 16 word)) = ucast (if bit a 0 then drop_bit 1 a XOR 0xA001 else drop_bit 1 a)"
proof -
  have poly: "(0xa001 :: 32 word) = ucast (0xA001 :: 16 word)" by simp
  show ?thesis
    unfolding crc_shift_def and1_ucast sdrop_ucast poly
    by (simp add: unsigned_xor_eq)
qed

lemma spec_xor_low_eq: "spec_xor_low acc b = acc XOR ucast b"
  unfolding spec_xor_low_def
  by (rule bit_word_eqI) (auto simp: bit_simps dest: bit_imp_le_length)

lemma crc_loop_j_ucast:
  "crc_loop_j j (ucast (a :: 16 word)) = ucast ((spec_crc_bit ^^ (8 - j)) a)"
proof (induction "8 - j" arbitrary: j a)
  case 0
  then show ?case by simp
next
  case (Suc n)
  then have j: "j < 8" and n: "n = 8 - (j + 1)" and e: "8 - j = Suc (8 - (j + 1))" by simp_all
  have "crc_loop_j j (ucast a) = crc_loop_j (j + 1) (ucast (spec_crc_bit a))"
    using j by (simp add: crc_shift_ucast spec_crc_bit_def)
  also have "\<dots> = ucast ((spec_crc_bit ^^ (8 - (j + 1))) (spec_crc_bit a))"
    by (rule Suc.hyps(1) [OF n])
  finally show ?case
    by (simp only: e funpow_Suc_right o_apply)
qed

lemma xor_byte_ucast:
  "(ucast (acc :: 16 word) :: 32 word) XOR ucast (to_ushort Char_unsigned c) = ucast (spec_xor_low acc c)"
  by (simp add: spec_xor_low_eq unsigned_xor_eq to_ushort_def)

lemma crc_loop_i_ucast:
  assumes "length (register_data d) = 8"
  shows "crc_loop_i Char_unsigned d i (ucast (acc :: 16 word))
     = Some (ucast (foldl spec_crc_byte acc (take (6 - i) (drop i (register_data d)))))"
  using assms
proof (induction "6 - i" arbitrary: i acc)
  case 0
  then show ?case by simp
next
  case (Suc n)
  then have i: "i < 6" and n: "n = 6 - (i + 1)" and e: "6 - i = Suc (6 - (i + 1))" by simp_all
  have r: "reg d i = Some (register_data d ! i)"
    using i Suc.prems by (simp add: reg_def)
  have d: "take (6 - i) (drop i (register_data d))
      = register_data d ! i # take (6 - (i + 1)) (drop (i + 1) (register_data d))"
  proof -
    have "i < length (register_data d)" using i Suc.prems by simp
    then have "drop i (register_data d) = register_data d ! i # drop (i + 1) (register_data d)"
      by (simp add: Cons_nth_drop_Suc)
    then show ?thesis by (simp only: e take_Suc_Cons)
  qed
  have "crc_loop_i Char_unsigned d i (ucast acc)
      = crc_loop_i Char_unsigned d (i + 1) (ucast (spec_crc_byte acc (register_data d ! i)))"
    using i r by (simp add: xor_byte_ucast crc_loop_j_ucast spec_crc_byte_def del: crc_loop_j.simps)
  also have "\<dots> = Some (ucast (foldl spec_crc_byte (spec_crc_byte acc (register_data d ! i))
        (take (6 - (i + 1)) (drop (i + 1) (register_data d)))))"
    by (rule Suc.hyps(1) [OF n Suc.prems])
  finally show ?case by (simp only: d foldl_Cons)
qed

lemma crc_loop_i_spec:
  assumes "length (register_data d) = 8"
  shows "crc_loop_i Char_unsigned d 0 0xffff = Some (ucast (computeCrc16 (register_data d)))"
proof -
  have "(0xffff :: 32 word) = ucast (0xFFFF :: 16 word)" by simp
  then show ?thesis
    using crc_loop_i_ucast [OF assms, of 0 "0xFFFF"] by (simp add: computeCrc16_def del: crc_loop_i.simps)
qed

subsection \<open>The received checksum\<close>

lemma uint_word_cat:
  "uint (word_cat (hi :: c_char) (lo :: c_char) :: 16 word) = uint hi * 256 + uint lo"
proof -
  have b: "uint hi < 256" "0 \<le> uint hi" "uint lo < 256" "0 \<le> uint lo"
    using uint_char_bound by simp_all
  have "take_bit 8 (uint lo) = uint lo"
    by (rule take_bit_int_eq_self) (use b in simp_all)
  then have c: "concat_bit 8 (uint lo) (uint hi) = uint hi * 256 + uint lo"
    by (simp add: concat_bit_eq push_bit_eq_mult)
  have "uint (word_cat hi lo :: 16 word) = concat_bit LENGTH(8) (uint lo) (uint hi) mod 2 ^ LENGTH(16)"
    by (simp only: word_cat_eq' uint_word_of_int)
  also have "\<dots> = (uint hi * 256 + uint lo) mod 65536"
    using c by simp
  also have "\<dots> = uint hi * 256 + uint lo"
    using b by simp
  finally show ?thesis .
qed

lemma uint_ucast_16_32: "uint (ucast (a :: 16 word) :: c_int) = uint a"
proof -
  have "uint a < 2 ^ 32" using uint_lt2p [of a] by simp
  then show ?thesis
    by (simp add: unsigned_ucast_eq take_bit_int_eq_self)
qed

lemma rcv_word_cat:
  "push_bit 8 (promote Char_unsigned hi) + promote Char_unsigned lo = (ucast (word_cat hi lo :: 16 word) :: c_int)"
  by (rule word_uint_eqI) (simp add: uint_field uint_ucast_16_32 uint_word_cat)

lemma ucast_16_32_inj: "(ucast (a :: 16 word) :: c_int) = ucast b \<longleftrightarrow> a = b"
  by (metis uint_ucast_16_32 word_uint_eq_iff)




lemma check_crc_eq:
  assumes "length (register_data (am2321_data w)) = 8"
  shows "check_crc Char_unsigned w =
    (if validateCrc (register_data (am2321_data w)) then Some (0, w)
     else Some (- 1, printk
       ''am2321 : Failed CRC check sum. Receive CRC : 0x%0x, Calc CRC : 0x%0x\<newline>''
       [ucast (word_cat (register_data (am2321_data w) ! 7) (register_data (am2321_data w) ! 6) :: 16 word),
        ucast (computeCrc16 (register_data (am2321_data w)))] w))"
  using assms
  by (simp add: check_crc_def reg_def crc_loop_i_spec rcv_word_cat ucast_16_32_inj validateCrc_def eq_commute
      del: crc_loop_i.simps)

subsection \<open>Frames that carry their own checksum\<close>








lemma word_cat_example: "(word_cat (0xC2 :: c_char) (0xD1 :: c_char) :: 16 word) = 0xC2D1"
  by (simp add: word_cat_eq)

subsection \<open>Status byte and decoding\<close>

lemma reg_in_range: "length (register_data d) = 8 \<Longrightarrow> i < 8 \<Longrightarrow> reg d i = Some (register_data d ! i)"
  by (simp add: reg_def)

lemma unat_char_bound: "unat (c :: c_char) < 256"
proof -
  have "unat c = nat (uint c)" by simp
  then show ?thesis using uint_char_bound [of c] by linarith
qed

lemma uint_ge_unat: "128 \<le> uint (c :: c_char) \<longleftrightarrow> 128 \<le> unat c"
proof -
  have "unat c = nat (uint c)" by simp
  then show ?thesis by linarith
qed

lemma char_high_bit: "bit (c :: c_char) 7 \<longleftrightarrow> 128 \<le> unat c"
proof -
  have "unat c < 256" by (rule unat_char_bound)
  then have "odd (unat c div 128) \<longleftrightarrow> 128 \<le> unat c"
  proof (cases "128 \<le> unat c")
    case True
    with \<open>unat c < 256\<close> have "unat c div 128 = 1"
      by (intro div_nat_eqI) simp_all
    with True show ?thesis by simp
  next
    case False
    then have "unat c div 128 = 0" by simp
    with False show ?thesis by simp
  qed
  moreover have "bit (unat c) 7 \<longleftrightarrow> bit c 7"
    by (simp add: bit_unsigned_iff)
  moreover have "bit (unat c) 7 \<longleftrightarrow> odd (unat c div 128)"
    by (simp add: bit_iff_odd)
  ultimately show ?thesis by simp
qed

lemma check_err_eq:
  assumes "length (register_data (am2321_data w)) = 8"
  shows "check_err Char_unsigned w =
     (if 128 \<le> unat (register_data (am2321_data w) ! 2)
      then Some (- 1, printk ''am2321 : Received error code : 0x%0x\<newline>''
             [promote Char_unsigned (register_data (am2321_data w) ! 2)] w)
      else Some (0, w))"
  using assms by (simp add: check_err_def reg_in_range sint_promote uint_ge_unat)

lemma calc_data_eq: "calc_data Char_unsigned high low = real (unat high * 256 + unat low) / 10"
proof -
  have "uint high * 256 + uint low = int (unat high * 256 + unat low)" by simp
  then show ?thesis
    unfolding calc_data_def sint_field by (simp only: of_int_of_nat_eq)
qed

lemma calc_hum_eq:
  assumes "length (register_data (am2321_data w)) = 8"
  shows "calc_hum abi w = Some (calc_data abi (register_data (am2321_data w) ! 2) (register_data (am2321_data w) ! 3), w)"
  using assms by (simp add: calc_hum_def reg_in_range)

lemma calc_temp_eq:
  assumes "length (register_data (am2321_data w)) = 8"
  shows "calc_temp abi w = Some (calc_data abi (register_data (am2321_data w) ! 4) (register_data (am2321_data w) ! 5), w)"
  using assms by (simp add: calc_temp_def reg_in_range)

lemma calc_discomfort_eq:
  assumes "length (register_data (am2321_data w)) = 8"
  shows "calc_discomfort abi w = Some
     (0.81 * calc_data abi (register_data (am2321_data w) ! 4) (register_data (am2321_data w) ! 5)
      + 0.01 * calc_data abi (register_data (am2321_data w) ! 2) (register_data (am2321_data w) ! 3)
        * (0.99 * calc_data abi (register_data (am2321_data w) ! 4) (register_data (am2321_data w) ! 5) - 14.3)
      + 46.3, w)"
  using assms by (simp add: calc_discomfort_def calc_hum_eq calc_temp_eq)

lemma computeCrc16_example:
  "computeCrc16 [0x03, 0x04, 0x02, 0x0A, 0x01, 0x00, 0xD1, 0xC2] = 0xC2D1"
  by code_simp

subsection \<open>The paths of one session\<close>

lemma received_frame_length:
  "length buf = 8 \<Longrightarrow> length (received_frame lib t buf) = 8"
  by (simp add: received_frame_def Let_def)

lemma checkStatus_iff: "checkStatus frame \<longleftrightarrow> \<not> 128 \<le> unat (frame ! 2)"
  by (simp add: checkStatus_def char_high_bit)

lemma check_err_session:
  assumes "length frame = 8"
  shows "check_err Char_unsigned (session_world t frame) =
     (if checkStatus frame then Some (0, session_world t frame)
      else Some (- 1, session_world
        (t @ [Printk ''am2321 : Received error code : 0x%0x\<newline>'' [promote Char_unsigned (frame ! 2)]]) frame))"
  using assms by (simp add: check_err_eq checkStatus_iff session_world_def printk_def emit_def)

lemma check_crc_session:
  assumes "length frame = 8"
  shows "check_crc Char_unsigned (session_world t frame) =
     (if validateCrc frame then Some (0, session_world t frame)
      else Some (- 1, session_world
        (t @ [Printk ''am2321 : Failed CRC check sum. Receive CRC : 0x%0x, Calc CRC : 0x%0x\<newline>''
            [ucast (word_cat (frame ! 7) (frame ! 6) :: 16 word), ucast (computeCrc16 frame)]]) frame))"
  using assms by (simp add: check_crc_eq session_world_def printk_def emit_def)

lemma measure_transport:
  assumes "length buf = 8"
  shows "measure_am2321 abi lib (session_world t buf) =
    (if \<not> step_ok lib t 2 then Some (- 1, session_world (t @ take 2 session) buf)
     else if \<not> step_ok lib t 3 then Some (- 1, session_world (t @ take 3 session @
        [Printk ''am2321 : Failed set to write mode for am2321.\<newline>'' [],
         Printk ''am2321 : Failed wakeup am2321.\<newline>'' []]) buf)
     else if \<not> step_ok lib t 5 then Some (- 1, session_world (t @ take 5 session @
        [Printk ''am2321 : Failed set to write mode for am2321.\<newline>'' []]) buf)
     else if \<not> step_ok lib t 7 then Some (- 1, session_world (t @ take 7 session) buf)
     else if \<not> step_ok lib t 9
       then Some (- 1, session_world (t @ take 9 session) (received_frame lib t buf))
     else if \<not> step_ok lib t 10
       then Some (- 1, session_world (t @ take 10 session) (received_frame lib t buf))
     else if \<not> step_ok lib t 11
       then Some (- 1, session_world (t @ session) (received_frame lib t buf))
     else do {
       (r9, w9) \<leftarrow> check_err abi (session_world (t @ session) (received_frame lib t buf));
       if r9 = - 1 then Some (- 1, w9) else
       do {
         (r10, w10) \<leftarrow> check_crc abi w9;
         if r10 = - 1 then Some (- 1, w10) else Some (0, w10)
       }
     })"
proof -
  define rf where "rf h = take 8 (i2c_received lib (h @ [Read_i2c_slave 8]))
      @ drop (length (take 8 (i2c_received lib (h @ [Read_i2c_slave 8])))) buf" for h
  have rd: "\<And>h. read_i2c_slave lib 8 (session_world h buf)
      = (i2c_return lib (h @ [Read_i2c_slave 8]), session_world (h @ [Read_i2c_slave 8]) (rf h))"
    by (simp add: read_i2c_slave_def session_world_def emit_def Let_def rf_def)
  have call: "\<And>e h f. i2c_call lib e (session_world h f)
      = (i2c_return lib (h @ [e]), session_world (h @ [e]) f)"
    by (simp add: i2c_call_def session_world_def emit_def Let_def)
  have em: "\<And>e h f. emit e (session_world h f) = session_world (h @ [e]) f"
    by (simp add: session_world_def emit_def)
  have rf_eq: "received_frame lib t buf = rf (t @
      [session_start, Init_i2c_slave,
       Write_i2c_slave [], Usleep 800, Write_i2c_slave [], Usleep 1500,
       Write_i2c_slave [0x03, 0x00, 0x04], Usleep 30])"
    by (simp add: received_frame_def rf_def session_def session_start_def Let_def)
  show ?thesis
    by (simp add: measure_am2321_def wakeup_am2321_def write_mode_am2321_def
          call em rd usleep_def printk_def step_ok_def session_def rf_eq Let_def
          session_start_def
          AM2321_DEV_NAME_def AM2321_ID_def AM2321_WAIT_WAKEUP_def AM2321_WAIT_WRITEMODE_def
          AM2321_WAIT_READMODE_def)
qed

lemma measure_cases:
  assumes "length buf = 8"
  shows "measure_am2321 Char_unsigned lib (session_world t buf) = Some
    (if \<not> step_ok lib t 2 then (- 1, session_world (t @ take 2 session) buf)
     else if \<not> step_ok lib t 3 then (- 1, session_world (t @ take 3 session @
        [Printk ''am2321 : Failed set to write mode for am2321.\<newline>'' [],
         Printk ''am2321 : Failed wakeup am2321.\<newline>'' []]) buf)
     else if \<not> step_ok lib t 5 then (- 1, session_world (t @ take 5 session @
        [Printk ''am2321 : Failed set to write mode for am2321.\<newline>'' []]) buf)
     else if \<not> step_ok lib t 7 then (- 1, session_world (t @ take 7 session) buf)
     else if \<not> step_ok lib t 9
       then (- 1, session_world (t @ take 9 session) (received_frame lib t buf))
     else if \<not> step_ok lib t 10
       then (- 1, session_world (t @ take 10 session) (received_frame lib t buf))
     else if \<not> step_ok lib t 11
       then (- 1, session_world (t @ session) (received_frame lib t buf))
     else if \<not> checkStatus (received_frame lib t buf)
       then (- 1, session_world (t @ session @
          [Printk ''am2321 : Received error code : 0x%0x\<newline>''
             [promote Char_unsigned (received_frame lib t buf ! 2)]]) (received_frame lib t buf))
     else if \<not> validateCrc (received_frame lib t buf)
       then (- 1, session_world (t @ session @
          [Printk ''am2321 : Failed CRC check sum. Receive CRC : 0x%0x, Calc CRC : 0x%0x\<newline>''
            [ucast (word_cat (received_frame lib t buf ! 7) (received_frame lib t buf ! 6) :: 16 word),
             ucast (computeCrc16 (received_frame lib t buf))]]) (received_frame lib t buf))
     else (0, session_world (t @ session) (received_frame lib t buf)))"
  using assms
  by (simp add: measure_transport check_err_session check_crc_session received_frame_length)

lemma crc_loop_i_total:
  assumes "length (register_data d) = 8"
  shows "\<exists>c. crc_loop_i abi d i x = Some c"
proof (induction "6 - i" arbitrary: i x)
  case 0
  then show ?case by simp
next
  case (Suc n)
  then have i: "i < 6" and n: "n = 6 - (i + 1)" by simp_all
  have r: "reg d i = Some (register_data d ! i)"
    using i assms by (simp add: reg_def)
  have "crc_loop_i abi d i x = crc_loop_i abi d (i + 1)
      (crc_loop_j 0 (x XOR ucast (to_ushort abi (register_data d ! i))))"
    using i r by (subst crc_loop_i.simps) simp
  then show ?case
    using Suc.hyps(1) [OF n] by simp
qed

lemma check_err_cases:
  assumes "length frame = 8"
  shows "check_err abi (session_world t frame) = Some (0, session_world t frame)
     \<or> check_err abi (session_world t frame) = Some (- 1, session_world
        (t @ [Printk ''am2321 : Received error code : 0x%0x\<newline>'' [promote abi (frame ! 2)]]) frame)"
  using assms by (simp add: check_err_def reg_def session_world_def printk_def emit_def)

lemma check_crc_cases:
  assumes "length frame = 8"
  shows "check_crc abi (session_world t frame) = Some (0, session_world t frame)
     \<or> (\<exists>rcv clc. check_crc abi (session_world t frame) = Some (- 1, session_world
        (t @ [Printk ''am2321 : Failed CRC check sum. Receive CRC : 0x%0x, Calc CRC : 0x%0x\<newline>''
            [rcv, clc]]) frame))"
proof -
  obtain c where "crc_loop_i abi \<lparr>register_data = frame\<rparr> 0 0xffff = Some c"
    using crc_loop_i_total [of "\<lparr>register_data = frame\<rparr>" abi 0 "0xffff"] assms by auto
  then show ?thesis
    using assms
    by (simp add: check_crc_def reg_def session_world_def printk_def emit_def Let_def
          del: crc_loop_i.simps)
qed

section \<open>Auxiliary facts about sessions and retries\<close>

lemma session_world_eq: "session_world (trace w) (register_data (am2321_data w)) = w"
  by (simp add: session_world_def)


lemma validateCrc_good_frame: "validateCrc good_frame"
  by (simp add: validateCrc_def good_frame_def computeCrc16_example word_cat_example)

lemma checkStatus_good_frame: "checkStatus good_frame"
  by (simp add: checkStatus_iff good_frame_def)

subsection \<open>Session starts and sleeps in the trace\<close>

lemma attempt_marks_append: "attempt_marks (a @ b) = attempt_marks a @ attempt_marks b"
  by (simp add: attempt_marks_def)

lemma attempt_marks_simps:
  "attempt_marks [] = []"
  "attempt_marks (Printk fmt args # xs) = attempt_marks xs"
  "attempt_marks (Usleep 300000 # xs) = Usleep 300000 # attempt_marks xs"
  "attempt_marks (session_start # xs) = session_start # attempt_marks xs"
  by (simp_all add: attempt_marks_def session_start_def)

lemma attempt_marks_take_session:
  assumes "2 \<le> n"
  shows "attempt_marks (take n session) = [session_start]"
proof -
  define k where "k = n - 2"
  have n: "n = Suc (Suc k)"
    using assms by (simp add: k_def)
  define rest where "rest = [Write_i2c_slave [], Usleep 800, Write_i2c_slave [], Usleep 1500,
      Write_i2c_slave [0x03, 0x00, 0x04], Usleep 30, Read_i2c_slave 8, Term_i2c_slave,
      Destroy_i2c_slave]"
  have s: "session = session_start # Init_i2c_slave # rest"
    by (simp add: session_def rest_def)
  have "\<forall>e \<in> set rest. \<not> (e = session_start \<or> e = Usleep 300000)"
    by (simp add: rest_def session_start_def)
  then have "\<forall>e \<in> set (take k rest). \<not> (e = session_start \<or> e = Usleep 300000)"
    by (meson in_set_takeD)
  then have "attempt_marks (take k rest) = []"
    by (simp add: attempt_marks_def filter_empty_conv)
  then show ?thesis
    by (simp add: n s attempt_marks_def session_start_def)
qed

lemma attempt_marks_session: "attempt_marks session = [session_start]"
  using attempt_marks_take_session [of 11] by (simp add: session_def)

lemma measure_effect:
  assumes "length (register_data (am2321_data w)) = 8"
  shows "\<exists>r w'. measure_am2321 abi lib w = Some (r, w') \<and> (r = 0 \<or> r = - 1)
     \<and> length (register_data (am2321_data w')) = 8
     \<and> attempt_marks (trace w') = attempt_marks (trace w) @ [session_start]"
proof -
  define t where "t = trace w"
  define buf where "buf = register_data (am2321_data w)"
  define rf where "rf = received_frame lib t buf"
  have w: "w = session_world t buf"
    by (simp add: t_def buf_def session_world_eq)
  have buf: "length buf = 8" using assms by (simp add: buf_def)
  have rf: "length rf = 8"
    unfolding rf_def by (rule received_frame_length [OF buf])
  note marks = session_world_def attempt_marks_append attempt_marks_simps
    attempt_marks_take_session attempt_marks_session
  consider (ok) "check_err abi (session_world (t @ session) rf) = Some (0, session_world (t @ session) rf)"
    | (err) "check_err abi (session_world (t @ session) rf) = Some (- 1, session_world
        (t @ session @ [Printk ''am2321 : Received error code : 0x%0x\<newline>'' [promote abi (rf ! 2)]]) rf)"
    using check_err_cases [OF rf, of abi "t @ session"] by auto
  then show ?thesis
  proof cases
    case err
    then show ?thesis
      unfolding w using buf rf
      by (simp add: measure_transport rf_def [symmetric]) (simp add: marks)
  next
    case ok
    consider (pass) "check_crc abi (session_world (t @ session) rf) = Some (0, session_world (t @ session) rf)"
      | (fail) rcv clc where "check_crc abi (session_world (t @ session) rf) = Some (- 1, session_world
          (t @ session @ [Printk ''am2321 : Failed CRC check sum. Receive CRC : 0x%0x, Calc CRC : 0x%0x\<newline>''
              [rcv, clc]]) rf)"
      using check_crc_cases [OF rf, of abi "t @ session"] by auto
    then show ?thesis
    proof cases
      case pass
      with ok show ?thesis
        unfolding w using buf rf
        by (simp add: measure_transport rf_def [symmetric]) (simp add: marks)
    next
      case fail
      with ok show ?thesis
        unfolding w using buf rf
        by (simp add: measure_transport rf_def [symmetric]) (simp add: marks)
    qed
  qed
qed

lemma retry_notice_marks:
  "attempt_marks (trace (usleep 300000 (printk fmt args w))) = attempt_marks (trace w) @ [Usleep 300000]"
  "attempt_marks (trace (printk fmt args w)) = attempt_marks (trace w)"
  "register_data (am2321_data (usleep n (printk fmt args w))) = register_data (am2321_data w)"
  "register_data (am2321_data (printk fmt args w)) = register_data (am2321_data w)"
  by (simp_all add: usleep_def printk_def emit_def attempt_marks_append attempt_marks_simps)

lemma measure_retry_loop_marks:
  assumes "length (register_data (am2321_data w)) = 8" and "0 \<le> count" and "count \<le> 5"
  shows "\<exists>r w' m. measure_retry_loop abi lib count w = Some (r, w') \<and> m \<le> nat (5 - count)
     \<and> attempt_marks (trace w')
         = attempt_marks (trace w) @ session_start # concat (replicate m [Usleep 300000, session_start])
     \<and> (r = 0 \<or> r = - 1) \<and> (r = - 1 \<longrightarrow> m = nat (5 - count))
     \<and> length (register_data (am2321_data w')) = 8"
  using assms
proof (induction abi lib count w rule: measure_retry_loop.induct)
  case (1 abi lib count w)
  obtain r w1 where m: "measure_am2321 abi lib w = Some (r, w1)" and r: "r = 0 \<or> r = - 1"
    and len1: "length (register_data (am2321_data w1)) = 8"
    and marks1: "attempt_marks (trace w1) = attempt_marks (trace w) @ [session_start]"
    using measure_effect [OF "1.prems"(1), of abi lib] by blast
  show ?case
  proof (cases "r = - 1")
    case False
    with r have "r = 0" by simp
    then have "measure_retry_loop abi lib count w = Some (0, w1)"
      using m by (subst measure_retry_loop.simps) simp
    then show ?thesis
      using marks1 len1 by (intro exI [of _ 0] exI [of _ w1]) simp
  next
    case True
    show ?thesis
    proof (cases "count = 5")
      case c5: True
      have "measure_retry_loop abi lib count w
          = Some (- 1, printk ''am2321 : Failed measure from am2321.\<newline>'' [] w1)"
        using m True c5 by (subst measure_retry_loop.simps) (simp add: I2C_SLAVE_MAX_RETRY_def)
      then show ?thesis
        using marks1 len1 c5
        by (intro exI [of _ "- 1"] exI [of _ "printk ''am2321 : Failed measure from am2321.\<newline>'' [] w1"]
             exI [of _ 0]) (simp add: retry_notice_marks)
    next
      case c: False
      define w2 where "w2 = usleep 300000
        (printk ''am2321 : Failed measure from am2321. retry %d of %d\<newline>''
           [word_of_int (count + 1), word_of_int I2C_SLAVE_MAX_RETRY] w1)"
      have lt: "\<not> I2C_SLAVE_MAX_RETRY < count + 1"
        using c "1.prems" by (simp add: I2C_SLAVE_MAX_RETRY_def)
      have unfold: "measure_retry_loop abi lib count w = measure_retry_loop abi lib (count + 1) w2"
        using m True lt by (subst measure_retry_loop.simps) (simp add: w2_def)
      have len2: "length (register_data (am2321_data w2))  = 8"
        using len1 by (simp add: w2_def retry_notice_marks)
      have marks2: "attempt_marks (trace w2) = attempt_marks (trace w) @ [session_start, Usleep 300000]"
        using marks1 by (simp add: w2_def retry_notice_marks)
      have cnt: "0 \<le> count + 1" "count + 1 \<le> 5"
        using c "1.prems" by simp_all
      obtain r' w' m' where
        res: "measure_retry_loop abi lib (count + 1) w2 = Some (r', w')"
        and m': "m' \<le> nat (5 - (count + 1))"
        and marks': "attempt_marks (trace w') = attempt_marks (trace w2)
            @ session_start # concat (replicate m' [Usleep 300000, session_start])"
        and r': "r' = 0 \<or> r' = - 1" and full: "r' = - 1 \<longrightarrow> m' = nat (5 - (count + 1))"
        and len': "length (register_data (am2321_data w')) = 8"
        using "1.IH" [OF m refl True lt, folded w2_def, OF len2 cnt] by blast
      have suc: "Suc (nat (5 - (count + 1))) = nat (5 - count)"
        using cnt by simp
      show ?thesis
      proof (intro exI [of _ r'] exI [of _ w'] exI [of _ "Suc m'"] conjI)
        show "measure_retry_loop abi lib count w = Some (r', w')" using unfold res by simp
        show "Suc m' \<le> nat (5 - count)" using m' suc by linarith
        show "attempt_marks (trace w') = attempt_marks (trace w)
            @ session_start # concat (replicate (Suc m') [Usleep 300000, session_start])"
          using marks' marks2 by simp
        show "r' = 0 \<or> r' = - 1" by (rule r')
        show "r' = - 1 \<longrightarrow> Suc m' = nat (5 - count)" using full suc by simp
        show "length (register_data (am2321_data w')) = 8" by (rule len')
      qed
    qed
  qed
qed

subsection \<open>The attempts of the retry loop\<close>

lemma attempt_failsD:
  assumes "attempt_fails abi lib w k"
  shows "\<exists>wk w1. retry_start abi lib w k = Some wk \<and> measure_am2321 abi lib wk = Some (- 1, w1)"
  using assms
  by (cases "retry_start abi lib w k") (auto simp: attempt_fails_def attempt_def)

lemma attempt_SomeD:
  assumes "attempt abi lib w k = Some (r, w')"
  shows "\<exists>wk. retry_start abi lib w k = Some wk \<and> measure_am2321 abi lib wk = Some (r, w')"
  using assms
  by (cases "retry_start abi lib w k") (auto simp: attempt_def)

lemma loop_after_failure:
  assumes "retry_start abi lib w k = Some wk" and "measure_am2321 abi lib wk = Some (- 1, w1)" and "k < 5"
  shows "\<exists>wk'. retry_start abi lib w (Suc k) = Some wk'
     \<and> measure_retry_loop abi lib (int k) wk = measure_retry_loop abi lib (int (Suc k)) wk'"
proof -
  have "measure_retry_loop abi lib (int k) wk = measure_retry_loop abi lib (int k + 1)
      (usleep 300000 (printk ''am2321 : Failed measure from am2321. retry %d of %d\<newline>''
         [word_of_int (int k + 1), word_of_int I2C_SLAVE_MAX_RETRY] w1))"
    using assms(2,3) by (subst measure_retry_loop.simps) (simp add: I2C_SLAVE_MAX_RETRY_def)
  moreover have "retry_start abi lib w (Suc k) = Some
      (usleep 300000 (printk ''am2321 : Failed measure from am2321. retry %d of %d\<newline>''
         [of_nat (Suc k), 5] w1))"
    using assms(1,2) by simp
  moreover have "int k + 1 = int (Suc k)" by simp
  ultimately show ?thesis
    by (simp add: I2C_SLAVE_MAX_RETRY_def)
qed

lemma loop_first_success:
  assumes "n < 6" and "\<forall>k<n. attempt_fails abi lib w k"
    and "attempt abi lib w n = Some (r, w')" and "r \<noteq> - 1"
  shows "k \<le> n \<Longrightarrow> \<exists>wk. retry_start abi lib w k = Some wk
     \<and> measure_retry_loop abi lib (int k) wk = Some (0, w')"
proof (induction "n - k" arbitrary: k)
  case 0
  then have "k = n" by simp
  moreover obtain wn where "retry_start abi lib w n = Some wn" "measure_am2321 abi lib wn = Some (r, w')"
    using attempt_SomeD [OF assms(3)] by blast
  moreover from this assms(4) have "measure_retry_loop abi lib (int n) wn = Some (0, w')"
    by (subst measure_retry_loop.simps) simp
  ultimately show ?case by simp
next
  case (Suc d)
  then have k: "k < n" and d: "d = n - Suc k" and le: "Suc k \<le> n" by simp_all
  obtain wk w1 where wk: "retry_start abi lib w k = Some wk" "measure_am2321 abi lib wk = Some (- 1, w1)"
    using attempt_failsD assms(2) k by blast
  have "k < 5" using k assms(1) by simp
  then obtain wk' where "retry_start abi lib w (Suc k) = Some wk'"
    "measure_retry_loop abi lib (int k) wk = measure_retry_loop abi lib (int (Suc k)) wk'"
    using loop_after_failure [OF wk] by blast
  then show ?case
    using Suc.hyps(1) [OF d le] wk(1) by simp
qed

lemma loop_all_fail:
  assumes "\<forall>k<6. attempt_fails abi lib w k"
  shows "k \<le> 5 \<Longrightarrow> \<exists>wk w5. retry_start abi lib w k = Some wk \<and> attempt abi lib w 5 = Some (- 1, w5)
     \<and> measure_retry_loop abi lib (int k) wk
         = Some (- 1, printk ''am2321 : Failed measure from am2321.\<newline>'' [] w5)"
proof (induction "5 - k" arbitrary: k)
  case 0
  then have k5: "k = 5" by simp
  have "attempt_fails abi lib w 5" using assms by simp
  then obtain wk w1 where wk: "retry_start abi lib w 5 = Some wk" "measure_am2321 abi lib wk = Some (- 1, w1)"
    using attempt_failsD by blast
  then have "attempt abi lib w 5 = Some (- 1, w1)" by (simp add: attempt_def)
  moreover have "measure_retry_loop abi lib (int 5) wk
      = Some (- 1, printk ''am2321 : Failed measure from am2321.\<newline>'' [] w1)"
    using wk(2) by (subst measure_retry_loop.simps) (simp add: I2C_SLAVE_MAX_RETRY_def)
  ultimately show ?case using wk(1) k5 by simp
next
  case (Suc d)
  then have k: "k < 5" and d: "d = 5 - Suc k" and le: "Suc k \<le> 5" by simp_all
  have "attempt_fails abi lib w k" using assms k by simp
  then obtain wk w1 where wk: "retry_start abi lib w k = Some wk" "measure_am2321 abi lib wk = Some (- 1, w1)"
    using attempt_failsD by blast
  obtain wk' where "retry_start abi lib w (Suc k) = Some wk'"
    "measure_retry_loop abi lib (int k) wk = measure_retry_loop abi lib (int (Suc k)) wk'"
    using loop_after_failure [OF wk k] by blast
  then show ?case
    using Suc.hyps(1) [OF d le] wk(1) by simp
qed

subsection \<open>The test transports\<close>

lemma notice_session_world:
  "usleep n (printk fmt args (session_world t f)) = session_world (t @ [Printk fmt args, Usleep n]) f"
  "printk fmt args (session_world t f) = session_world (t @ [Printk fmt args]) f"
  "printf fmt vals (session_world t f) = session_world (t @ [Printf fmt vals]) f"
  "usleep n (session_world t f) = session_world (t @ [Usleep n]) f"
  by (simp_all add: usleep_def printk_def printf_def emit_def session_world_def)

lemma retry_start_next:
  assumes "retry_start abi lib w k = Some wk" and "measure_am2321 abi lib wk = Some (r, w1)"
    and "k' = Suc k"
  shows "retry_start abi lib w k' = Some (usleep 300000
       (printk ''am2321 : Failed measure from am2321. retry %d of %d\<newline>''
          [of_nat k', 5] w1))"
  using assms by simp

lemma lib_fifth_fails:
  assumes "length (filter (\<lambda>e. e = Init_i2c_slave) t) < 4" and "length buf = 8"
  shows "measure_am2321 abi lib_fifth (session_world t buf)
     = Some (- 1, session_world (t @ [session_start, Init_i2c_slave]) buf)"
  using assms by (simp add: measure_transport step_ok_def lib_fifth_def session_def session_start_def)

lemma lib_fifth_succeeds:
  assumes "length (filter (\<lambda>e. e = Init_i2c_slave) t) = 4" and "length buf = 8"
  shows "measure_am2321 Char_unsigned lib_fifth (session_world t buf)
     = Some (0, session_world (t @ session) good_frame)"
proof -
  have "received_frame lib_fifth t buf = good_frame"
    using assms(2) by (simp add: received_frame_def lib_fifth_def good_frame_def)
  then show ?thesis
    using assms
    by (simp add: measure_cases step_ok_def lib_fifth_def validateCrc_good_frame
          checkStatus_good_frame session_def session_start_def)
qed

lemma upt_4: "[0..<4] = [0, 1, 2, 3]"
  by (simp add: eval_nat_numeral upt_rec)

lemma measure_retry_total:
  assumes "length (register_data (am2321_data w)) = 8"
  shows "\<exists>r w'. measure_retry abi lib w = Some (r, w') \<and> (r = 0 \<or> r = - 1)
     \<and> length (register_data (am2321_data w')) = 8"
  using measure_retry_loop_marks [OF assms, of 0 abi lib]
  by (simp add: measure_retry_def) blast

lemma getopt_loop_last:
  "- 1 \<notin> set opts \<Longrightarrow> getopt_loop (opts @ [of_char CHR ''h'']) format0 = of_char CHR ''h''"
  by (induction opts arbitrary: format0) simp_all

lemma lib_ok_retry:
  assumes "length buf = 8"
  shows "measure_retry Char_unsigned lib_ok (session_world t buf)
     = Some (0, session_world (t @ session) good_frame)"
proof -
  have "received_frame lib_ok t buf = good_frame"
    using assms by (simp add: received_frame_def lib_ok_def good_frame_def)
  then have "measure_am2321 Char_unsigned lib_ok (session_world t buf)
      = Some (0, session_world (t @ session) good_frame)"
    using assms
    by (simp add: measure_cases step_ok_def lib_ok_def validateCrc_good_frame checkStatus_good_frame)
  then show ?thesis
    unfolding measure_retry_def by (subst measure_retry_loop.simps) simp
qed

lemma lib_down_measure:
  assumes "length buf = 8"
  shows "measure_am2321 abi lib_down (session_world t buf)
     = Some (- 1, session_world (t @ [session_start, Init_i2c_slave]) buf)"
  using assms by (simp add: measure_transport step_ok_def lib_down_def session_def)

lemma lib_down_loop_last:
  assumes "length buf = 8"
  shows "measure_retry_loop abi lib_down 5 (session_world t buf)
     = Some (- 1, session_world ((t @ [session_start, Init_i2c_slave])
          @ [Printk ''am2321 : Failed measure from am2321.\<newline>'' []]) buf)"
  by (subst measure_retry_loop.simps)
     (simp add: lib_down_measure [OF assms] I2C_SLAVE_MAX_RETRY_def notice_session_world)

lemma lib_down_loop_step:
  assumes "length buf = 8" and "count < 5"
  shows "measure_retry_loop abi lib_down count (session_world t buf)
     = measure_retry_loop abi lib_down (count + 1)
        (session_world (t @ [session_start, Init_i2c_slave,
           Printk ''am2321 : Failed measure from am2321. retry %d of %d\<newline>''
             [word_of_int (count + 1), 5], Usleep 300000]) buf)"
  using assms(2)
  by (subst measure_retry_loop.simps)
     (simp add: lib_down_measure [OF assms(1)] I2C_SLAVE_MAX_RETRY_def notice_session_world)

lemma lib_down_loop:
  assumes "length buf = 8" and "0 \<le> count" and "count \<le> 5"
  shows "\<exists>t'. measure_retry_loop abi lib_down count (session_world t buf)
     = Some (- 1, session_world (t' @ [Printk ''am2321 : Failed measure from am2321.\<newline>'' []]) buf)"
  using assms(2,3)
proof (induction "nat (5 - count)" arbitrary: count t)
  case 0
  then have c5: "count = 5" by simp
  show ?case
    unfolding c5 lib_down_loop_last [OF assms(1)] by (rule exI) (rule refl)
next
  case (Suc d)
  then have c: "count < 5" and d: "d = nat (5 - (count + 1))"
    and b: "0 \<le> count + 1" "count + 1 \<le> 5" by simp_all
  show ?case
    unfolding lib_down_loop_step [OF assms(1) c] by (rule Suc.hyps(1) [OF d b])
qed

lemma lib_down_retry:
  assumes "length buf = 8"
  shows "\<exists>t'. measure_retry abi lib_down (session_world t buf)
     = Some (- 1, session_world (t' @ [Printk ''am2321 : Failed measure from am2321.\<newline>'' []]) buf)"
  unfolding measure_retry_def by (rule lib_down_loop [OF assms]) simp_all

subsection \<open>The command line\<close>

lemma main_help:
  assumes "getopt_loop opts format0 = of_char CHR ''h''"
  shows "main abi lib opts format0 w = Some (1, print_help w)"
  using assms by (simp add: main_def)

lemma main_failed:
  assumes "getopt_loop opts format0 \<noteq> of_char CHR ''h''"
    and "measure_retry abi lib w = Some (r1, w1)"
    and "measure_retry abi lib (usleep AM2321_WAIT_REFRESH w1) = Some (- 1, w2)"
  shows "main abi lib opts format0 w
     = Some (0, printf ''Failed measure data from AM2321.\<newline>'' [] w2)"
  using assms by (simp add: main_def Let_def)

lemma main_exit_0:
  assumes "length (register_data (am2321_data w)) = 8"
    and "getopt_loop opts format0 \<noteq> of_char CHR ''h''"
  shows "\<exists>w'. main abi lib opts format0 w = Some (0, w')"
proof -
  obtain r1 w1 where 1: "measure_retry abi lib w = Some (r1, w1)"
    and len1: "length (register_data (am2321_data w1)) = 8"
    using measure_retry_total [OF assms(1)] by blast
  have "length (register_data (am2321_data (usleep AM2321_WAIT_REFRESH w1))) = 8"
    using len1 by (simp add: usleep_def emit_def)
  then obtain r2 w2 where 2: "measure_retry abi lib (usleep AM2321_WAIT_REFRESH w1) = Some (r2, w2)"
    and r2: "r2 = 0 \<or> r2 = - 1" and len2: "length (register_data (am2321_data w2)) = 8"
    using measure_retry_total by blast
  show ?thesis
  proof (cases "r2 = - 1")
    case True
    then show ?thesis using main_failed [OF assms(2) 1] 2 by simp
  next
    case False
    then show ?thesis
      using assms(2) 1 2 len2
      by (simp add: main_def Let_def calc_temp_eq calc_hum_eq calc_discomfort_eq)
  qed
qed

lemma print_help_only_prints:
  "list_all (\<lambda>e. case e of Printf fmt vals \<Rightarrow> True | _ \<Rightarrow> False)
     (drop (length (trace w)) (trace (print_help w)))"
  by (simp add: print_help_def printf_def emit_def)

subsection \<open>Signed plain char\<close>









lemma calc_data_example:
  "calc_data abi 0x02 0x0A = 52.2" "calc_data abi 0x01 0x00 = 25.6"
  by (cases abi; simp add: calc_data_def promote_def)+

section \<open>Checksum\<close>







section \<open>Status byte\<close>




section \<open>Decoding of the register pairs\<close>




section \<open>Discomfort index\<close>

text \<open>
  Claim C8. \<^verbatim>\<open>calc_discomfort\<close> returns 0.81 * temp + 0.01 * hum * (0.99 * temp - 14.3) + 46.3
  where \<open>hum\<close> and \<open>temp\<close> are what \<^verbatim>\<open>calc_hum\<close> and \<^verbatim>\<open>calc_temp\<close> decode from the
  same frame, whatever the signedness of plain \<^verbatim>\<open>char\<close>; where it is unsigned, these
  are the unsigned 16-bit fields of bytes 2, 3 and 4, 5 divided by ten. The frame
  03 04 02 0A 01 00 followed by its checksum decodes to humidity 52.2 and temperature
  25.6, and its discomfort index is the value of the formula at these two numbers, on
  either signedness.
\<close>

theorem calc_discomfort_formula:
  "(length (register_data (am2321_data w)) = 8 \<longrightarrow>
      (let hum = calc_data abi (register_data (am2321_data w) ! 2) (register_data (am2321_data w) ! 3);
           temp = calc_data abi (register_data (am2321_data w) ! 4) (register_data (am2321_data w) ! 5)
       in calc_hum abi w = Some (hum, w) \<and> calc_temp abi w = Some (temp, w)
          \<and> calc_discomfort abi w
                = Some (0.81 * temp + 0.01 * hum * (0.99 * temp - 14.3) + 46.3, w)))
   \<and> (length (register_data (am2321_data w)) = 8 \<longrightarrow>
      (let hum = real (unat (register_data (am2321_data w) ! 2) * 256
                        + unat (register_data (am2321_data w) ! 3)) / 10;
           temp = real (unat (register_data (am2321_data w) ! 4) * 256
                        + unat (register_data (am2321_data w) ! 5)) / 10
       in calc_hum Char_unsigned w = Some (hum, w) \<and> calc_temp Char_unsigned w = Some (temp, w)
          \<and> calc_discomfort Char_unsigned w
                = Some (0.81 * temp + 0.01 * hum * (0.99 * temp - 14.3) + 46.3, w)))
   \<and> (\<forall>t. calc_hum abi \<lparr>am2321_data = \<lparr>register_data = store_crc [0x03, 0x04, 0x02, 0x0A, 0x01, 0x00]\<rparr>, trace = t\<rparr>
          = Some (52.2, \<lparr>am2321_data = \<lparr>register_data = store_crc [0x03, 0x04, 0x02, 0x0A, 0x01, 0x00]\<rparr>, trace = t\<rparr>)
        \<and> calc_temp abi \<lparr>am2321_data = \<lparr>register_data = store_crc [0x03, 0x04, 0x02, 0x0A, 0x01, 0x00]\<rparr>, trace = t\<rparr>
          = Some (25.6, \<lparr>am2321_data = \<lparr>register_data = store_crc [0x03, 0x04, 0x02, 0x0A, 0x01, 0x00]\<rparr>, trace = t\<rparr>)
        \<and> calc_discomfort abi \<lparr>am2321_data = \<lparr>register_data = store_crc [0x03, 0x04, 0x02, 0x0A, 0x01, 0x00]\<rparr>, trace = t\<rparr>
          = Some (0.81 * 25.6 + 0.01 * 52.2 * (0.99 * 25.6 - 14.3) + 46.3,
                  \<lparr>am2321_data = \<lparr>register_data = store_crc [0x03, 0x04, 0x02, 0x0A, 0x01, 0x00]\<rparr>, trace = t\<rparr>))"
proof -
  have ex: "length (store_crc [0x03, 0x04, 0x02, 0x0A, 0x01, 0x00]) = 8"
    by (simp add: store_crc_def)
  have nth: "store_crc [0x03, 0x04, 0x02, 0x0A, 0x01, 0x00] ! 2 = 0x02"
    "store_crc [0x03, 0x04, 0x02, 0x0A, 0x01, 0x00] ! 3 = 0x0A"
    "store_crc [0x03, 0x04, 0x02, 0x0A, 0x01, 0x00] ! 4 = 0x01"
    "store_crc [0x03, 0x04, 0x02, 0x0A, 0x01, 0x00] ! 5 = 0x00"
    by (simp_all add: store_crc_def)
  show ?thesis
  proof (intro conjI impI allI)
    assume len: "length (register_data (am2321_data w)) = 8"
    show "let hum = calc_data abi (register_data (am2321_data w) ! 2) (register_data (am2321_data w) ! 3);
           temp = calc_data abi (register_data (am2321_data w) ! 4) (register_data (am2321_data w) ! 5)
       in calc_hum abi w = Some (hum, w) \<and> calc_temp abi w = Some (temp, w)
          \<and> calc_discomfort abi w
                = Some (0.81 * temp + 0.01 * hum * (0.99 * temp - 14.3) + 46.3, w)"
      by (simp only: calc_hum_eq [OF len] calc_temp_eq [OF len] calc_discomfort_eq [OF len]
            Let_def simp_thms)
    show "let hum = real (unat (register_data (am2321_data w) ! 2) * 256
                        + unat (register_data (am2321_data w) ! 3)) / 10;
           temp = real (unat (register_data (am2321_data w) ! 4) * 256
                        + unat (register_data (am2321_data w) ! 5)) / 10
       in calc_hum Char_unsigned w = Some (hum, w) \<and> calc_temp Char_unsigned w = Some (temp, w)
          \<and> calc_discomfort Char_unsigned w
                = Some (0.81 * temp + 0.01 * hum * (0.99 * temp - 14.3) + 46.3, w)"
      by (simp only: calc_hum_eq [OF len] calc_temp_eq [OF len] calc_discomfort_eq [OF len]
            calc_data_eq Let_def simp_thms)
  qed (simp_all only: calc_hum_eq calc_temp_eq calc_discomfort_eq ex nth calc_data_example
        world.simps am2321.simps)
qed

theorem calc_discomfort_formula_witness:
  "length (register_data (am2321_data
      \<lparr>am2321_data = \<lparr>register_data = [0x03, 0x04, 0x02, 0x0A, 0x01, 0x00, 0xD1, 0xC2]\<rparr>, trace = []\<rparr>)) = 8
   \<and> calc_discomfort Char_unsigned \<lparr>am2321_data = \<lparr>register_data = [0x03, 0x04, 0x02, 0x0A, 0x01, 0x00, 0xD1, 0xC2]\<rparr>, trace = []\<rparr>
       = Some (72.800968, \<lparr>am2321_data = \<lparr>register_data = [0x03, 0x04, 0x02, 0x0A, 0x01, 0x00, 0xD1, 0xC2]\<rparr>, trace = []\<rparr>)
   \<and> calc_discomfort Char_signed \<lparr>am2321_data = \<lparr>register_data = [0x03, 0x04, 0x02, 0x0A, 0x01, 0x00, 0xD1, 0xC2]\<rparr>, trace = []\<rparr>
       = Some (72.800968, \<lparr>am2321_data = \<lparr>register_data = [0x03, 0x04, 0x02, 0x0A, 0x01, 0x00, 0xD1, 0xC2]\<rparr>, trace = []\<rparr>)"
  using calc_discomfort_formula
    [of "\<lparr>am2321_data = \<lparr>register_data = [0x03, 0x04, 0x02, 0x0A, 0x01, 0x00, 0xD1, 0xC2]\<rparr>, trace = []\<rparr>" Char_unsigned]
    calc_discomfort_formula
    [of "\<lparr>am2321_data = \<lparr>register_data = [0x03, 0x04, 0x02, 0x0A, 0x01, 0x00, 0xD1, 0xC2]\<rparr>, trace = []\<rparr>" Char_signed]
  by (simp add: Let_def calc_data_example)

section \<open>The frame is only read\<close>

text \<open>
  Claim C10. For every 8-byte frame and either signedness of plain \<^verbatim>\<open>char\<close>,
  \<^verbatim>\<open>calc_hum\<close>, \<^verbatim>\<open>calc_temp\<close>,
  \<^verbatim>\<open>calc_discomfort\<close>, \<^verbatim>\<open>check_err\<close> and \<^verbatim>\<open>check_crc\<close> return with
  \<^verbatim>\<open>register_data\<close> unchanged, and none of them reads outside indices 0 to 7: a read
  at any other index has no value in the model and would make the function return
  \<open>None\<close>.
\<close>

theorem decoders_leave_frame_unchanged:
  assumes "length (register_data (am2321_data w)) = 8"
  shows "(\<exists>v. calc_hum abi w = Some (v, w))
     \<and> (\<exists>v. calc_temp abi w = Some (v, w))
     \<and> (\<exists>v. calc_discomfort abi w = Some (v, w))
     \<and> (\<exists>r w'. check_err abi w = Some (r, w') \<and> am2321_data w' = am2321_data w)
     \<and> (\<exists>r w'. check_crc abi w = Some (r, w') \<and> am2321_data w' = am2321_data w)
     \<and> (\<forall>i. reg (am2321_data w) i \<noteq> None \<longleftrightarrow> i \<le> 7)"
proof -
  have d: "am2321_data (session_world t (register_data (am2321_data w))) = am2321_data w" for t
    by (simp add: session_world_def)
  have "\<exists>r w'. check_err abi w = Some (r, w') \<and> am2321_data w' = am2321_data w"
    using check_err_cases [OF assms, of abi "trace w"] d
    by (auto simp: session_world_eq)
  moreover have "\<exists>r w'. check_crc abi w = Some (r, w') \<and> am2321_data w' = am2321_data w"
    using check_crc_cases [OF assms, of abi "trace w"] d
    by (auto simp: session_world_eq)
  moreover have "\<forall>i. reg (am2321_data w) i \<noteq> None \<longleftrightarrow> i \<le> 7"
    using assms by (auto simp: reg_def)
  ultimately show ?thesis
    by (simp add: calc_hum_eq [OF assms] calc_temp_eq [OF assms] calc_discomfort_eq [OF assms])
qed

theorem decoders_leave_frame_unchanged_witness:
  "length (register_data (am2321_data
      \<lparr>am2321_data = \<lparr>register_data = [0x03, 0x04, 0x82, 0x0A, 0x01, 0x00, 0x00, 0x00]\<rparr>, trace = []\<rparr>)) = 8
   \<and> (\<exists>r w'. check_err Char_unsigned \<lparr>am2321_data = \<lparr>register_data = [0x03, 0x04, 0x82, 0x0A, 0x01, 0x00, 0x00, 0x00]\<rparr>, trace = []\<rparr>
          = Some (r, w') \<and> am2321_data w' = \<lparr>register_data = [0x03, 0x04, 0x82, 0x0A, 0x01, 0x00, 0x00, 0x00]\<rparr>)
   \<and> (\<exists>r w'. check_crc Char_signed \<lparr>am2321_data = \<lparr>register_data = [0x03, 0x04, 0x82, 0x0A, 0x01, 0x00, 0x00, 0x00]\<rparr>, trace = []\<rparr>
          = Some (r, w') \<and> am2321_data w' = \<lparr>register_data = [0x03, 0x04, 0x82, 0x0A, 0x01, 0x00, 0x00, 0x00]\<rparr>)"
  using decoders_leave_frame_unchanged
    [of "\<lparr>am2321_data = \<lparr>register_data = [0x03, 0x04, 0x82, 0x0A, 0x01, 0x00, 0x00, 0x00]\<rparr>, trace = []\<rparr>" Char_unsigned]
    decoders_leave_frame_unchanged
    [of "\<lparr>am2321_data = \<lparr>register_data = [0x03, 0x04, 0x82, 0x0A, 0x01, 0x00, 0x00, 0x00]\<rparr>, trace = []\<rparr>" Char_signed]
  by simp

section \<open>One session attempt\<close>




text \<open>
  Claim C6, evaluated on a transport whose initialisation succeeds and whose wake write
  fails: \<^verbatim>\<open>measure\<close> returns -1 after the events shown, and neither
  \<^verbatim>\<open>term_i2c_slave\<close> nor \<^verbatim>\<open>destroy_i2c_slave\<close> is among them. The claim says that
  the transport is terminated and released on this path too.
\<close>

theorem measure_wake_failure_not_released:
  "i2c_return lib_wake_fails [session_start, Init_i2c_slave] \<noteq> - 1
   \<and> measure_am2321 abi lib_wake_fails (session_world [] [0, 0, 0, 0, 0, 0, 0, 0])
     = Some (- 1, session_world
         [session_start, Init_i2c_slave, Write_i2c_slave [],
          Printk ''am2321 : Failed set to write mode for am2321.\<newline>'' [],
          Printk ''am2321 : Failed wakeup am2321.\<newline>'' []]
         [0, 0, 0, 0, 0, 0, 0, 0])
   \<and> Term_i2c_slave \<notin> set (trace (snd (the
         (measure_am2321 abi lib_wake_fails (session_world [] [0, 0, 0, 0, 0, 0, 0, 0])))))
   \<and> Destroy_i2c_slave \<notin> set (trace (snd (the
         (measure_am2321 abi lib_wake_fails (session_world [] [0, 0, 0, 0, 0, 0, 0, 0])))))"
proof -
  have "measure_am2321 abi lib_wake_fails (session_world [] [0, 0, 0, 0, 0, 0, 0, 0])
     = Some (- 1, session_world
         [session_start, Init_i2c_slave, Write_i2c_slave [],
          Printk ''am2321 : Failed set to write mode for am2321.\<newline>'' [],
          Printk ''am2321 : Failed wakeup am2321.\<newline>'' []]
         [0, 0, 0, 0, 0, 0, 0, 0])"
    by (simp add: measure_transport step_ok_def lib_wake_fails_def session_def)
  then show ?thesis
    by (simp add: lib_wake_fails_def session_world_def session_start_def)
qed

section \<open>Retry controller\<close>

text \<open>
  Claim C5. \<^verbatim>\<open>measure_retry\<close> makes at most 6 session attempts. When the attempts before
  attempt \<open>n + 1\<close> (with \<open>n < 6\<close>) fail and that attempt succeeds, it returns 0 in the state
  that attempt left, so with that attempt's frame; when all 6 attempts fail it returns -1
  after the sixth. In the trace, the session starts and the sleeps of 300 milliseconds
  alternate: between two consecutive attempts there is exactly one such sleep, always of
  the same length, and a run that ends with -1 contains 6 attempts.
\<close>

theorem measure_retry_attempts:
  assumes "length (register_data (am2321_data w)) = 8"
  shows "(\<forall>n<6. list_all (attempt_fails abi lib w) [0..<n] \<longrightarrow>
            (\<forall>r w'. attempt abi lib w n = Some (r, w') \<and> r \<noteq> - 1 \<longrightarrow>
               measure_retry abi lib w = Some (0, w')))
     \<and> (list_all (attempt_fails abi lib w) [0..<6] \<longrightarrow>
            (\<exists>w'. attempt abi lib w 5 = Some (- 1, w')
               \<and> measure_retry abi lib w
                   = Some (- 1, printk ''am2321 : Failed measure from am2321.\<newline>'' [] w')))
     \<and> (\<exists>r w' m. measure_retry abi lib w = Some (r, w') \<and> m \<le> 5
            \<and> attempt_marks (trace w') = attempt_marks (trace w)
                  @ session_start # concat (replicate m [Usleep 300000, session_start])
            \<and> (r = 0 \<or> r = - 1) \<and> (r = - 1 \<longrightarrow> m = 5))"
proof (intro conjI allI impI)
  fix n r w'
  assume n: "n < 6" and fails: "list_all (attempt_fails abi lib w) [0..<n]"
    and att: "attempt abi lib w n = Some (r, w') \<and> r \<noteq> - 1"
  from fails have "\<forall>k<n. attempt_fails abi lib w k"
    by (simp add: list_all_iff)
  from loop_first_success [OF n this, of r w' 0] att
  show "measure_retry abi lib w = Some (0, w')"
    by (simp add: measure_retry_def)
next
  assume "list_all (attempt_fails abi lib w) [0..<6]"
  then have "\<forall>k<6. attempt_fails abi lib w k"
    by (simp add: list_all_iff)
  from loop_all_fail [OF this, of 0]
  show "\<exists>w'. attempt abi lib w 5 = Some (- 1, w')
      \<and> measure_retry abi lib w
          = Some (- 1, printk ''am2321 : Failed measure from am2321.\<newline>'' [] w')"
    by (simp add: measure_retry_def)
next
  from measure_retry_loop_marks [OF assms, of 0 abi lib]
  show "\<exists>r w' m. measure_retry abi lib w = Some (r, w') \<and> m \<le> 5
            \<and> attempt_marks (trace w') = attempt_marks (trace w)
                  @ session_start # concat (replicate m [Usleep 300000, session_start])
            \<and> (r = 0 \<or> r = - 1) \<and> (r = - 1 \<longrightarrow> m = 5)"
    by (simp add: measure_retry_def) blast
qed

theorem measure_retry_attempts_witness:
  "length (register_data (am2321_data (session_world [] [0, 0, 0, 0, 0, 0, 0, 0]))) = 8
   \<and> (4 :: nat) < 6
   \<and> list_all (attempt_fails Char_unsigned lib_fifth (session_world [] [0, 0, 0, 0, 0, 0, 0, 0])) [0..<4]
   \<and> (\<exists>w'. attempt Char_unsigned lib_fifth (session_world [] [0, 0, 0, 0, 0, 0, 0, 0]) 4 = Some (0, w')
         \<and> register_data (am2321_data w') = good_frame
         \<and> measure_retry Char_unsigned lib_fifth (session_world [] [0, 0, 0, 0, 0, 0, 0, 0]) = Some (0, w'))"
proof -
  define z :: "c_char list" where "z = [0, 0, 0, 0, 0, 0, 0, 0]"
  define notice :: "c_int \<Rightarrow> event list" where
    "notice k = [Printk ''am2321 : Failed measure from am2321. retry %d of %d\<newline>'' [k, 5],
        Usleep 300000]" for k
  define failed where "failed = [session_start, Init_i2c_slave]"
  define t1 where "t1 = failed @ notice 1"
  define t2 where "t2 = t1 @ failed @ notice 2"
  define t3 where "t3 = t2 @ failed @ notice 3"
  define t4 where "t4 = t3 @ failed @ notice 4"
  note defs = notice_def failed_def session_start_def
  have z: "length z = 8" by (simp add: z_def)
  have s0: "retry_start Char_unsigned lib_fifth (session_world [] z) 0 = Some (session_world [] z)" by simp
  have m0: "measure_am2321 Char_unsigned lib_fifth (session_world [] z) = Some (- 1, session_world failed z)"
    using lib_fifth_fails [of "[]" z] z by (simp add: failed_def)
  have s1: "retry_start Char_unsigned lib_fifth (session_world [] z) 1 = Some (session_world t1 z)"
    using retry_start_next [OF s0 m0, of 1] by (simp add: notice_session_world t1_def notice_def)
  have m1: "measure_am2321 Char_unsigned lib_fifth (session_world t1 z) = Some (- 1, session_world (t1 @ failed) z)"
    using lib_fifth_fails [of t1 z] z by (simp add: t1_def defs)
  have s2: "retry_start Char_unsigned lib_fifth (session_world [] z) 2 = Some (session_world t2 z)"
    using retry_start_next [OF s1 m1, of 2] by (simp add: notice_session_world t2_def notice_def)
  have m2: "measure_am2321 Char_unsigned lib_fifth (session_world t2 z) = Some (- 1, session_world (t2 @ failed) z)"
    using lib_fifth_fails [of t2 z] z by (simp add: t2_def t1_def defs)
  have s3: "retry_start Char_unsigned lib_fifth (session_world [] z) 3 = Some (session_world t3 z)"
    using retry_start_next [OF s2 m2, of 3] by (simp add: notice_session_world t3_def notice_def)
  have m3: "measure_am2321 Char_unsigned lib_fifth (session_world t3 z) = Some (- 1, session_world (t3 @ failed) z)"
    using lib_fifth_fails [of t3 z] z by (simp add: t3_def t2_def t1_def defs)
  have s4: "retry_start Char_unsigned lib_fifth (session_world [] z) 4 = Some (session_world t4 z)"
    using retry_start_next [OF s3 m3, of 4] by (simp add: notice_session_world t4_def notice_def)
  have m4: "measure_am2321 Char_unsigned lib_fifth (session_world t4 z)
      = Some (0, session_world (t4 @ session) good_frame)"
    using lib_fifth_succeeds [of t4 z] z by (simp add: t4_def t3_def t2_def t1_def defs)
  have a0: "attempt_fails Char_unsigned lib_fifth (session_world [] z) 0"
    unfolding attempt_fails_def attempt_def s0 by (simp add: m0)
  have a1: "attempt_fails Char_unsigned lib_fifth (session_world [] z) 1"
    unfolding attempt_fails_def attempt_def s1 by (simp add: m1)
  have a2: "attempt_fails Char_unsigned lib_fifth (session_world [] z) 2"
    unfolding attempt_fails_def attempt_def s2 by (simp add: m2)
  have a3: "attempt_fails Char_unsigned lib_fifth (session_world [] z) 3"
    unfolding attempt_fails_def attempt_def s3 by (simp add: m3)
  have fails: "list_all (attempt_fails Char_unsigned lib_fifth (session_world [] z)) [0..<4]"
    unfolding upt_4 using a0 a1 a2 a3 by simp
  have a4: "attempt Char_unsigned lib_fifth (session_world [] z) 4
      = Some (0, session_world (t4 @ session) good_frame)"
    by (simp add: attempt_def s4 m4)
  have len: "length (register_data (am2321_data (session_world [] z))) = 8"
    by (simp add: session_world_def z_def)
  have "measure_retry Char_unsigned lib_fifth (session_world [] z)
      = Some (0, session_world (t4 @ session) good_frame)"
    using measure_retry_attempts [OF len, of Char_unsigned lib_fifth, THEN conjunct1, rule_format,
        of 4 0 "session_world (t4 @ session) good_frame"] fails a4
    by simp
  with fails a4 len show ?thesis
    unfolding z_def by (simp add: session_world_def)
qed

section \<open>Command line\<close>

text \<open>
  Claim C9, as the code has it. Whatever the measurements do, the program exits with
  status 0 unless the format is \<^verbatim>\<open>'h'\<close>; when the measurement whose result is used
  returns -1 after its retries, it prints the failure message and exits with status 0.
  \<^verbatim>\<open>format\<close> is the last value that \<^verbatim>\<open>getopt\<close> reported: when that is \<^verbatim>\<open>'h'\<close>,
  and so when \<^verbatim>\<open>-h\<close> is the last option, the program prints the help and exits with
  status 1, and everything it did was to print. A \<^verbatim>\<open>-h\<close> that is followed by another
  option is overridden by that option.
\<close>

theorem main_exit_status:
  assumes "length (register_data (am2321_data w)) = 8"
  shows "(getopt_loop opts format0 \<noteq> of_char CHR ''h'' \<longrightarrow>
            (\<exists>w'. main abi lib opts format0 w = Some (0, w'))
          \<and> (\<forall>r1 w1 w2. measure_retry abi lib w = Some (r1, w1)
                \<and> measure_retry abi lib (usleep AM2321_WAIT_REFRESH w1) = Some (- 1, w2) \<longrightarrow>
                main abi lib opts format0 w
                  = Some (0, printf ''Failed measure data from AM2321.\<newline>'' [] w2)))
     \<and> (getopt_loop opts format0 = of_char CHR ''h'' \<longrightarrow>
            main abi lib opts format0 w = Some (1, print_help w)
          \<and> list_all (\<lambda>e. case e of Printf fmt vals \<Rightarrow> True | _ \<Rightarrow> False)
                (drop (length (trace w)) (trace (print_help w))))
     \<and> (- 1 \<notin> set opts \<longrightarrow>
            getopt_loop (opts @ [of_char CHR ''h'']) format0 = of_char CHR ''h'')"
  using main_exit_0 [OF assms, of opts format0 abi lib] main_failed [of opts format0 abi lib w]
    main_help [of opts format0 abi lib w] print_help_only_prints [of w]
    getopt_loop_last [of opts format0]
  by blast

theorem main_exit_status_witness:
  "length (register_data (am2321_data (session_world [] [0, 0, 0, 0, 0, 0, 0, 0]))) = 8
   \<and> getopt_loop [] 0 \<noteq> of_char CHR ''h''
   \<and> (\<exists>w2. main Char_unsigned lib_down [] 0 (session_world [] [0, 0, 0, 0, 0, 0, 0, 0])
          = Some (0, printf ''Failed measure data from AM2321.\<newline>'' [] w2))
   \<and> getopt_loop [of_char CHR ''c'', of_char CHR ''h''] 0 = of_char CHR ''h''
   \<and> main Char_unsigned lib_down [of_char CHR ''c'', of_char CHR ''h''] 0 (session_world [] [0, 0, 0, 0, 0, 0, 0, 0])
       = Some (1, print_help (session_world [] [0, 0, 0, 0, 0, 0, 0, 0]))"
proof -
  define z :: "c_char list" where "z = [0, 0, 0, 0, 0, 0, 0, 0]"
  have z: "length z = 8" by (simp add: z_def)
  have len: "length (register_data (am2321_data (session_world [] z))) = 8"
    by (simp add: session_world_def z_def)
  obtain t1 where 1: "measure_retry Char_unsigned lib_down (session_world [] z)
      = Some (- 1, session_world (t1 @ [Printk ''am2321 : Failed measure from am2321.\<newline>'' []]) z)"
    using lib_down_retry [OF z] by blast
  obtain t2 where 2: "measure_retry Char_unsigned lib_down
        (usleep AM2321_WAIT_REFRESH
          (session_world (t1 @ [Printk ''am2321 : Failed measure from am2321.\<newline>'' []]) z))
      = Some (- 1, session_world (t2 @ [Printk ''am2321 : Failed measure from am2321.\<newline>'' []]) z)"
    unfolding notice_session_world using lib_down_retry [OF z] by blast
  have f: "getopt_loop [] 0 \<noteq> of_char CHR ''h''" by simp
  have h: "getopt_loop [of_char CHR ''c'', of_char CHR ''h''] 0 = of_char CHR ''h''" by simp
  from main_exit_status [OF len, of "[]" 0 Char_unsigned lib_down] f 1 2
  have "main Char_unsigned lib_down [] 0 (session_world [] z)
      = Some (0, printf ''Failed measure data from AM2321.\<newline>'' []
          (session_world (t2 @ [Printk ''am2321 : Failed measure from am2321.\<newline>'' []]) z))"
    by blast
  then have a: "\<exists>w2. main Char_unsigned lib_down [] 0 (session_world [] z)
      = Some (0, printf ''Failed measure data from AM2321.\<newline>'' [] w2)"
    by (rule exI)
  from main_exit_status [OF len, of "[of_char CHR ''c'', of_char CHR ''h'']" 0 Char_unsigned lib_down] h
  have b: "main Char_unsigned lib_down [of_char CHR ''c'', of_char CHR ''h''] 0 (session_world [] z)
      = Some (1, print_help (session_world [] z))"
    by blast
  from len f a h b show ?thesis
    unfolding z_def by blast
qed

text \<open>
  Claim C9 as stated fails when \<^verbatim>\<open>-h\<close> is not the last option: with the options
  \<^verbatim>\<open>-h -c\<close> and a working sensor the program runs both measurements, prints the
  values as CSV and exits with status 0.
\<close>

theorem main_help_overridden:
  "of_char CHR ''h'' \<in> set [of_char CHR ''h'', of_char CHR ''c'' :: int]
   \<and> main Char_unsigned lib_ok [of_char CHR ''h'', of_char CHR ''c''] 0 (session_world [] [0, 0, 0, 0, 0, 0, 0, 0])
     = Some (0, session_world
         (session @ [Usleep 2000000] @ session
            @ [Printf ''%.1f,%.1f,%.1f\<newline>'' [25.6, 52.2, 72.800968]])
         good_frame)"
proof -
  have len: "length good_frame = 8" by (simp add: good_frame_def)
  have w: "\<And>t. length (register_data (am2321_data (session_world t good_frame))) = 8"
    by (simp add: session_world_def good_frame_def)
  have v: "calc_data Char_unsigned (good_frame ! 4) (good_frame ! 5) = 25.6"
    "calc_data Char_unsigned (good_frame ! 2) (good_frame ! 3) = 52.2"
    by (simp_all add: good_frame_def calc_data_eq)
  have d: "\<And>t. register_data (am2321_data (session_world t good_frame)) = good_frame"
    by (simp add: session_world_def)
  show ?thesis
    by (simp add: main_def lib_ok_retry notice_session_world AM2321_WAIT_REFRESH_def len
          calc_temp_eq [OF w] calc_hum_eq [OF w] calc_discomfort_eq [OF w] d v)
qed

end
